theory Spec2Isabelle
  imports Complex_Main
begin

section \<open>Flink service health check: data model\<close>

text \<open>
  The exceptions that the modelled code can raise. \<open>ValueError\<close> carries the text that
  \<open>str(e)\<close> yields; it is what the dashboard client raises when the dashboard cannot be
  read. \<open>KeyError\<close> comes from subscripting a label dictionary, \<open>AttributeError\<close> from
  reading \<open>tzinfo\<close> of a start time that is \<open>None\<close>, \<open>ZeroDivisionError\<close> from
  dividing by zero.
\<close>

datatype error =
    InvalidArgument
  | ValueError string
  | KeyError string
  | AttributeError
  | ZeroDivisionError

text \<open>
  The fields of \<open>FlinkDeploymentConfig\<close> that the check reads. The class itself lives in
  \<open>paasta_tools.flink_tools\<close>; \<open>job_id\<close> and the value returned by
  \<open>get_replication_crit_percentage()\<close> are taken as fields. \<open>taskmanager_instances\<close>
  is \<open>config_dict.get("taskmanager")\<close> followed by \<open>.get("instances")\<close>: the outer
  option is the presence of the \<open>taskmanager\<close> entry, the inner one the presence of
  its \<open>instances\<close> key.
\<close>

record FlinkDeploymentConfig =
  service :: string
  instance_name :: string
  cluster :: string
  job_id :: string
  replication_crit_percentage :: int
  taskmanager_instances :: "int option option"

text \<open>
  A pod as far as the check looks at it: the label dictionary of its metadata and the
  start time of its status, in microseconds (the resolution of \<open>datetime\<close>), absent
  while the pod has not been started.
\<close>

record V1Pod =
  labels :: "string \<rightharpoonup> string"
  start_time :: "int option"

section \<open>Formatting\<close>

definition digit_char :: "nat \<Rightarrow> char" where
  "digit_char d = ''0123456789'' ! d"

fun str_nat :: "nat \<Rightarrow> string" where
  "str_nat n = (if n < 10 then [digit_char n] else str_nat (n div 10) @ [digit_char (n mod 10)])"

declare str_nat.simps [simp del]

text \<open>Python's \<open>str\<close> on an integer, as an f-string applies it.\<close>

definition str_int :: "int \<Rightarrow> string" where
  "str_int i = (if i < 0 then ''-'' @ str_nat (nat (- i)) else str_nat (nat i))"

section \<open>The under-replication test\<close>

text \<open>
  Python's \<open>/\<close> on two integers: a zero divisor raises \<open>ZeroDivisionError\<close>. The
  quotient is kept exact.
\<close>

definition true_div :: "int \<Rightarrow> int \<Rightarrow> error + rat" where
  "true_div a b = (if b = 0 then Inl ZeroDivisionError else Inr (of_int a / of_int b))"

text \<open>Modelled from the spec: \<open>paasta_tools.utils.is_under_replicated\<close>, which
  \<open>check_under_registered_taskmanagers\<close> calls, is not among the sources. The spec gives its
  contract: counts are non-negative and the threshold lies between 0 and 100, anything
  else signals \<open>InvalidArgument\<close>; the percentage available is 100 when nothing is
  expected and \<open>(observed / expected) * 100\<close> otherwise (\<open>percent_available\<close>), compared
  exactly (no rounding) and strictly against the threshold. The call site unpacks a
  pair, whose second component is taken to be that percentage.
\<close>

definition percent_available :: "int \<Rightarrow> int \<Rightarrow> error + rat" where
  "percent_available observed_count expected_count =
     (if expected_count = 0 then Inr 100
      else (case true_div observed_count expected_count of
              Inl e \<Rightarrow> Inl e
            | Inr q \<Rightarrow> Inr (q * 100)))"

definition is_under_replicated :: "int \<Rightarrow> int \<Rightarrow> int \<Rightarrow> error + (bool \<times> rat)" where
  "is_under_replicated num_available expected_count crit_threshold =
     (if expected_count < 0 \<or> num_available < 0 \<or> crit_threshold < 0 \<or> 100 < crit_threshold
      then Inl InvalidArgument
      else (case percent_available num_available expected_count of
              Inl e \<Rightarrow> Inl e
            | Inr ratio \<Rightarrow> Inr (ratio < of_int crit_threshold, ratio)))"

text \<open>The explanation appended to the message of an unhealthy verdict (lines 87 to 104).\<close>

definition alert_explanation :: "FlinkDeploymentConfig \<Rightarrow> string" where
  "alert_explanation instance_config =
     ''\<newline>What this alert means:\<newline>\<newline>'' @
     ''  This alert means that the Flink dashboard is not reporting the expected\<newline>'' @
     ''  number of taskmanagers.\<newline>\<newline>'' @
     ''Reasons this might be happening:\<newline>\<newline>'' @
     ''  The service may simply be unhealthy. There also may not be enough resources\<newline>'' @
     ''  in the cluster to support the requested instance count.\<newline>\<newline>'' @
     ''Things you can do:\<newline>\<newline>'' @
     ''  * Fix the cause of the unhealthy service. Try running:\<newline>\<newline>'' @
     ''     paasta status -s '' @ service instance_config @
     '' -i '' @ instance_name instance_config @
     '' -c '' @ cluster instance_config @ '' -vv\<newline>\<newline>''"

text \<open>
  Line 73: \<open>overview.get("taskmanagers", 0)\<close> on the dictionary the dashboard returned.
  Lines 75 to 80 and 83 to 85: the two f-strings of the check.
\<close>

definition num_reported_of :: "(string \<rightharpoonup> int) \<Rightarrow> int" where
  "num_reported_of overview = (case overview ''taskmanagers'' of None \<Rightarrow> 0 | Some n \<Rightarrow> n)"

definition registered_message :: "FlinkDeploymentConfig \<Rightarrow> int \<Rightarrow> int \<Rightarrow> string" where
  "registered_message instance_config num_reported expected_count =
     ''Service '' @ job_id instance_config @ '' has '' @
     str_int num_reported @ '' out of '' @ str_int expected_count @ '' expected instances '' @
     ''of taskmanager reported by dashboard!\<newline>'' @
     ''(threshold: '' @ str_int (replication_crit_percentage instance_config) @ ''%)''"

definition unavailable_message :: "FlinkDeploymentConfig \<Rightarrow> string \<Rightarrow> string" where
  "unavailable_message instance_config e =
     ''Dashboard of service '' @ job_id instance_config @ '' is not available!\<newline>('' @ e @ '')''"

text \<open>
  \<open>check_under_registered_taskmanagers\<close>. The call of
  \<open>flink_tools.get_flink_jobmanager_overview\<close> is an input: \<open>Inl e\<close> when it raised
  \<open>ValueError(e)\<close>, \<open>Inr overview\<close> when it returned a dictionary. Only \<open>ValueError\<close> is
  caught by the \<open>try\<close>; any other exception of the body leaves the function.
\<close>

definition check_under_registered_taskmanagers ::
  "FlinkDeploymentConfig \<Rightarrow> int \<Rightarrow> string + (string \<rightharpoonup> int) \<Rightarrow> error + (bool \<times> string)" where
  "check_under_registered_taskmanagers instance_config expected_count fetched =
     (case fetched of
        Inl e \<Rightarrow>
          Inr (True, unavailable_message instance_config e @ alert_explanation instance_config)
      | Inr overview \<Rightarrow>
          let num_reported = num_reported_of overview;
              crit_threshold = replication_crit_percentage instance_config;
              output = registered_message instance_config num_reported expected_count
          in (case is_under_replicated num_reported expected_count crit_threshold of
                Inl (ValueError e) \<Rightarrow>
                  Inr (True, unavailable_message instance_config e @ alert_explanation instance_config)
              | Inl err \<Rightarrow> Inl err
              | Inr (unhealthy, _) \<Rightarrow>
                  Inr (unhealthy,
                       if unhealthy then output @ alert_explanation instance_config else output)))"

section \<open>The dashboard as part of the world\<close>




section \<open>Counting healthy containers\<close>

text \<open>
  \<open>container_lifetime\<close>: the clock reading minus the start time, in microseconds. The
  clock (\<open>datetime.now\<close>) is the parameter \<open>now\<close>. Reading \<open>st.tzinfo\<close> of an absent
  start time raises.
\<close>

definition container_lifetime :: "int \<Rightarrow> V1Pod \<Rightarrow> error + int" where
  "container_lifetime now pod =
     (case start_time pod of None \<Rightarrow> Inl AttributeError | Some st \<Rightarrow> Inr (now - st))"

text \<open>
  The condition of the list comprehension in \<open>healthy_flink_containers_cnt\<close>, with the
  left-to-right evaluation of \<open>and\<close>: the label is subscripted first (a missing key
  raises), readiness is asked only of a pod of the requested type, the lifetime only of
  a ready one. \<open>total_seconds() > 60\<close> is \<open>60000000 <\<close> on microseconds.
  \<open>kubernetes_tools.is_pod_ready\<close> is a parameter.
\<close>

definition counts_as_healthy :: "(V1Pod \<Rightarrow> bool) \<Rightarrow> int \<Rightarrow> string \<Rightarrow> V1Pod \<Rightarrow> error + bool" where
  "counts_as_healthy is_pod_ready now container_type pod =
     (case labels pod ''flink-container-type'' of
        None \<Rightarrow> Inl (KeyError ''flink-container-type'')
      | Some t \<Rightarrow>
          if t \<noteq> container_type then Inr False
          else if \<not> is_pod_ready pod then Inr False
          else (case container_lifetime now pod of
                  Inl e \<Rightarrow> Inl e
                | Inr lifetime \<Rightarrow> Inr (60000000 < lifetime)))"

fun healthy_flink_containers ::
  "(V1Pod \<Rightarrow> bool) \<Rightarrow> int \<Rightarrow> V1Pod list \<Rightarrow> string \<Rightarrow> error + V1Pod list" where
  "healthy_flink_containers is_pod_ready now [] container_type = Inr []"
| "healthy_flink_containers is_pod_ready now (pod # si_pods) container_type =
     (case counts_as_healthy is_pod_ready now container_type pod of
        Inl e \<Rightarrow> Inl e
      | Inr keep \<Rightarrow>
          (case healthy_flink_containers is_pod_ready now si_pods container_type of
             Inl e \<Rightarrow> Inl e
           | Inr kept \<Rightarrow> Inr (if keep then pod # kept else kept)))"

definition healthy_flink_containers_cnt ::
  "(V1Pod \<Rightarrow> bool) \<Rightarrow> int \<Rightarrow> V1Pod list \<Rightarrow> string \<Rightarrow> error + int" where
  "healthy_flink_containers_cnt is_pod_ready now si_pods container_type =
     (case healthy_flink_containers is_pod_ready now si_pods container_type of
        Inl e \<Rightarrow> Inl e
      | Inr kept \<Rightarrow> Inr (int (length kept)))"

section \<open>Combining the verdicts of the sub-checks\<close>

type_synonym verdict = "bool \<times> string"

text \<open>Python's \<open>sep.join(parts)\<close> and \<open>any(flags)\<close>.\<close>

fun join :: "string \<Rightarrow> string list \<Rightarrow> string" where
  "join sep [] = []"
| "join sep [part] = part"
| "join sep (part # nxt # parts) = part @ sep @ join sep (nxt # parts)"

fun any_true :: "bool list \<Rightarrow> bool" where
  "any_true [] = False"
| "any_true (flag # flags) = (if flag then True else any_true flags)"

definition delimiter :: string where
  "delimiter = ''\<newline>########\<newline>''"

text \<open>
  Lines 148 and 149 of \<open>check_flink_service_health\<close>, for a list of results of any
  length: the joined messages and whether any result is unhealthy.
\<close>

definition aggregate :: "verdict list \<Rightarrow> verdict" where
  "aggregate results =
     (let output = join delimiter (map snd results)
      in (any_true (map fst results), output))"

datatype Status = OK | CRITICAL

fun taskmanagers_expected :: "int option option \<Rightarrow> int" where
  "taskmanagers_expected None = 10"
| "taskmanagers_expected (Some None) = 10"
| "taskmanagers_expected (Some (Some n)) = n"

text \<open>
  \<open>check_flink_service_health\<close>, returning the status and the text that it hands to
  \<open>send_replication_event\<close>. \<open>monitoring_tools.check_under_replication\<close> is a parameter,
  as are \<open>is_pod_ready\<close>, the clock and the outcome of the dashboard call; \<open>si_pods\<close> is the
  list that \<open>filter_pods_by_service_instance\<close> returned. An exception of any step ends
  the function.
\<close>

definition check_flink_service_health ::
  "(FlinkDeploymentConfig \<Rightarrow> int \<Rightarrow> int \<Rightarrow> string \<Rightarrow> error + verdict) \<Rightarrow>
   (V1Pod \<Rightarrow> bool) \<Rightarrow> int \<Rightarrow> string + (string \<rightharpoonup> int) \<Rightarrow>
   FlinkDeploymentConfig \<Rightarrow> V1Pod list \<Rightarrow> error + (Status \<times> string)" where
  "check_flink_service_health check_under_replication is_pod_ready now fetched
       instance_config si_pods =
     (let taskmanagers_expected_cnt = taskmanagers_expected (taskmanager_instances instance_config)
      in
      (case healthy_flink_containers_cnt is_pod_ready now si_pods ''supervisor'' of
         Inl e \<Rightarrow> Inl e
       | Inr num_healthy_supervisors \<Rightarrow>
      (case healthy_flink_containers_cnt is_pod_ready now si_pods ''jobmanager'' of
         Inl e \<Rightarrow> Inl e
       | Inr num_healthy_jobmanagers \<Rightarrow>
      (case healthy_flink_containers_cnt is_pod_ready now si_pods ''taskmanager'' of
         Inl e \<Rightarrow> Inl e
       | Inr num_healthy_taskmanagers \<Rightarrow>
      (case check_under_replication instance_config 1 num_healthy_supervisors ''supervisor'' of
         Inl e \<Rightarrow> Inl e
       | Inr r1 \<Rightarrow>
      (case check_under_replication instance_config 1 num_healthy_jobmanagers ''jobmanager'' of
         Inl e \<Rightarrow> Inl e
       | Inr r2 \<Rightarrow>
      (case check_under_replication instance_config taskmanagers_expected_cnt
              num_healthy_taskmanagers ''taskmanager'' of
         Inl e \<Rightarrow> Inl e
       | Inr r3 \<Rightarrow>
      (case check_under_registered_taskmanagers instance_config taskmanagers_expected_cnt
              fetched of
         Inl e \<Rightarrow> Inl e
       | Inr r4 \<Rightarrow>
           (let (unhealthy, output) = aggregate [r1, r2, r3, r4]
            in Inr (if unhealthy then CRITICAL else OK, output))))))))))"

section \<open>Cleaning up stale Marathon apps\<close>

text \<open>
  The loop of \<open>cleanup_apps\<close> over the app ids that the client listed. The state passed
  along is the list of \<open>client.delete_app\<close> calls issued so far, in order.
  \<open>marathon_tools.remove_iteration_from_job_id\<close> is a parameter; \<open>lock_held srv_instance\<close>
  says that entering \<open>bounce_lib.bounce_lock(srv_instance)\<close> raises \<open>IOError\<close>.
\<close>

fun cleanup_loop ::
  "(string \<Rightarrow> string) \<Rightarrow> (string \<Rightarrow> bool) \<Rightarrow> string list \<Rightarrow> string list \<Rightarrow> string list \<Rightarrow> string list" where
  "cleanup_loop remove_iteration_from_job_id lock_held valid_app_list [] deleted = deleted"
| "cleanup_loop remove_iteration_from_job_id lock_held valid_app_list (app_id # app_ids) deleted =
     (if \<not> any_true (map (\<lambda>deployed_id. app_id = deployed_id) valid_app_list)
      then
        (let srv_instance = remove_iteration_from_job_id app_id
         in if lock_held srv_instance
            then cleanup_loop remove_iteration_from_job_id lock_held valid_app_list app_ids deleted
            else cleanup_loop remove_iteration_from_job_id lock_held valid_app_list app_ids
                   (deleted @ [app_id]))
      else cleanup_loop remove_iteration_from_job_id lock_held valid_app_list app_ids deleted)"

text \<open>
  \<open>cleanup_apps\<close>: \<open>services\<close> is what \<open>get_marathon_services_for_cluster\<close> returned
  (service, instance, iteration), \<open>listed\<close> the ids of \<open>client.list_apps()\<close>;
  \<open>marathon_tools.compose_job_id\<close> is a parameter. The result is the list of delete
  calls.
\<close>

definition cleanup_apps ::
  "(string \<Rightarrow> string \<Rightarrow> string \<Rightarrow> string) \<Rightarrow> (string \<Rightarrow> string) \<Rightarrow> (string \<Rightarrow> bool) \<Rightarrow>
   (string \<times> string \<times> string) list \<Rightarrow> string list \<Rightarrow> string list" where
  "cleanup_apps compose_job_id remove_iteration_from_job_id lock_held services listed =
     (let valid_app_list =
            map (\<lambda>(srv, inst, iteration). compose_job_id srv inst iteration) services
      in cleanup_loop remove_iteration_from_job_id lock_held valid_app_list listed [])"

text \<open>
  The condition under which a pod counts, in the words of the property checked below:
  the label equals the requested type, the pod is ready, and it has been alive for more
  than sixty seconds.
\<close>

definition meets_all_three :: "(V1Pod \<Rightarrow> bool) \<Rightarrow> int \<Rightarrow> string \<Rightarrow> V1Pod \<Rightarrow> bool" where
  "meets_all_three is_pod_ready now container_type pod =
     (labels pod ''flink-container-type'' = Some container_type \<and>
      is_pod_ready pod \<and>
      (case start_time pod of None \<Rightarrow> False | Some st \<Rightarrow> 60 * 1000000 < now - st))"

section \<open>Sample inputs\<close>

definition sample_config :: FlinkDeploymentConfig where
  "sample_config = \<lparr>service = ''streams'', instance_name = ''main'', cluster = ''uswest'',
     job_id = ''streams.main'', replication_crit_percentage = 90,
     taskmanager_instances = Some (Some 10)\<rparr>"

definition old_taskmanager :: V1Pod where
  "old_taskmanager =
     \<lparr>labels = [''flink-container-type'' \<mapsto> ''taskmanager''], start_time = Some 0\<rparr>"

definition young_taskmanager :: V1Pod where
  "young_taskmanager =
     \<lparr>labels = [''flink-container-type'' \<mapsto> ''taskmanager''], start_time = Some 70000000\<rparr>"

definition old_jobmanager :: V1Pod where
  "old_jobmanager =
     \<lparr>labels = [''flink-container-type'' \<mapsto> ''jobmanager''], start_time = Some 0\<rparr>"



text \<open>
  A stand-in for \<open>monitoring_tools.check_under_replication\<close>, used where a concrete
  sub-check is needed: the under-replication test with the sub-component as message.
\<close>

definition sample_check_under_replication ::
  "FlinkDeploymentConfig \<Rightarrow> int \<Rightarrow> int \<Rightarrow> string \<Rightarrow> error + verdict" where
  "sample_check_under_replication instance_config expected_count num_available sub_component =
     (case is_under_replicated num_available expected_count
             (replication_crit_percentage instance_config) of
        Inl e \<Rightarrow> Inl e
      | Inr (unhealthy, _) \<Rightarrow> Inr (unhealthy, sub_component))"

definition dotted_job_id :: "string \<Rightarrow> string \<Rightarrow> string \<Rightarrow> string" where
  "dotted_job_id srv inst iteration = srv @ ''.'' @ inst @ ''.'' @ iteration"

section \<open>Facts about the under-replication test\<close>

lemma ratio_less_iff:
  assumes "0 < e"
  shows "((of_int n / of_int e) * 100 < (of_int c :: rat)) = (n * 100 < e * c)"
proof -
  have pos: "0 < (of_int e :: rat)" using assms by simp
  have "((of_int n / of_int e) * 100 < (of_int c :: rat)) =
          (of_int n * 100 < of_int c * (of_int e :: rat))"
    using pos by (simp add: pos_divide_less_eq)
  also have "\<dots> = ((of_int (n * 100) :: rat) < of_int (e * c))"
    by (simp add: mult.commute)
  also have "\<dots> = (n * 100 < e * c)"
    by (rule of_int_less_iff)
  finally show ?thesis .
qed

lemma true_div_zero: "true_div a 0 = Inl ZeroDivisionError"
  by (simp add: true_div_def)

lemma percent_available_returns:
  "percent_available observed_count expected_count =
     Inr (if expected_count = 0 then 100
          else (of_int observed_count / of_int expected_count) * 100)"
  by (simp add: percent_available_def true_div_def)

lemma is_under_replicated_positive:
  assumes "0 < expected_count" "0 \<le> num_available" "0 \<le> crit_threshold" "crit_threshold \<le> 100"
  shows "\<exists>ratio. is_under_replicated num_available expected_count crit_threshold =
           Inr (num_available * 100 < expected_count * crit_threshold, ratio)"
  using assms ratio_less_iff [of expected_count num_available crit_threshold]
  by (simp add: is_under_replicated_def percent_available_returns)

lemma is_under_replicated_zero:
  assumes "0 \<le> num_available" "0 \<le> crit_threshold" "crit_threshold \<le> 100"
  shows "is_under_replicated num_available 0 crit_threshold = Inr (False, 100)"
proof -
  have "\<not> (100 :: rat) < of_int crit_threshold"
  proof
    assume "(100 :: rat) < of_int crit_threshold"
    then have "(of_int 100 :: rat) < of_int crit_threshold" by simp
    then have "100 < crit_threshold" by (simp only: of_int_less_iff)
    with assms show False by simp
  qed
  with assms show ?thesis by (simp add: is_under_replicated_def percent_available_returns)
qed

lemma is_under_replicated_invalid:
  assumes "num_available < 0 \<or> expected_count < 0 \<or> crit_threshold < 0 \<or> 100 < crit_threshold"
  shows "is_under_replicated num_available expected_count crit_threshold = Inl InvalidArgument"
  using assms by (auto simp: is_under_replicated_def)

lemma is_under_replicated_error:
  "is_under_replicated num_available expected_count crit_threshold = Inl e \<Longrightarrow> e = InvalidArgument"
  by (simp add: is_under_replicated_def percent_available_returns split: if_splits)

lemma check_of_verdict:
  assumes "is_under_replicated (num_reported_of overview) expected_count
             (replication_crit_percentage instance_config) = Inr (unhealthy, ratio)"
  shows "check_under_registered_taskmanagers instance_config expected_count (Inr overview) =
           Inr (unhealthy,
                if unhealthy
                then registered_message instance_config (num_reported_of overview) expected_count @
                     alert_explanation instance_config
                else registered_message instance_config (num_reported_of overview) expected_count)"
  using assms by (simp add: check_under_registered_taskmanagers_def Let_def)

lemma check_of_invalid:
  assumes "is_under_replicated (num_reported_of overview) expected_count
             (replication_crit_percentage instance_config) = Inl InvalidArgument"
  shows "check_under_registered_taskmanagers instance_config expected_count (Inr overview) =
           Inl InvalidArgument"
  using assms by (simp add: check_under_registered_taskmanagers_def Let_def)

section \<open>Facts about joining, counting and the cleanup loop\<close>

lemma any_true_iff: "any_true flags = (True \<in> set flags)"
  by (induction flags) auto

lemma any_true_append: "any_true (xs @ ys) = (any_true xs \<or> any_true ys)"
  by (induction xs) simp_all

lemma join_Cons: "join sep (part # parts) = part @ concat (map (\<lambda>p. sep @ p) parts)"
  by (induction sep "part # parts" arbitrary: part parts rule: join.induct) simp_all

lemma counts_as_healthy_Inr:
  "counts_as_healthy is_pod_ready now container_type pod = Inr keep \<Longrightarrow>
   keep = meets_all_three is_pod_ready now container_type pod"
  by (auto simp: counts_as_healthy_def meets_all_three_def container_lifetime_def
           split: option.splits if_splits)

lemma counts_as_healthy_total:
  "labels pod ''flink-container-type'' \<noteq> None \<Longrightarrow> start_time pod \<noteq> None \<Longrightarrow>
   counts_as_healthy is_pod_ready now container_type pod =
     Inr (meets_all_three is_pod_ready now container_type pod)"
  by (auto simp: counts_as_healthy_def meets_all_three_def container_lifetime_def)

lemma healthy_flink_containers_Inr:
  "healthy_flink_containers is_pod_ready now si_pods container_type = Inr kept \<Longrightarrow>
   kept = filter (meets_all_three is_pod_ready now container_type) si_pods"
proof (induction si_pods arbitrary: kept)
  case Nil
  then show ?case by simp
next
  case (Cons pod si_pods)
  from Cons.prems obtain keep rest where
    k: "counts_as_healthy is_pod_ready now container_type pod = Inr keep" and
    r: "healthy_flink_containers is_pod_ready now si_pods container_type = Inr rest" and
    e: "kept = (if keep then pod # rest else rest)"
    by (auto split: sum.splits)
  from r have "rest = filter (meets_all_three is_pod_ready now container_type) si_pods"
    by (rule Cons.IH)
  with e counts_as_healthy_Inr [OF k] show ?case by simp
qed

lemma healthy_flink_containers_total:
  "\<forall>pod \<in> set si_pods. labels pod ''flink-container-type'' \<noteq> None \<and> start_time pod \<noteq> None \<Longrightarrow>
   healthy_flink_containers is_pod_ready now si_pods container_type =
     Inr (filter (meets_all_three is_pod_ready now container_type) si_pods)"
  by (induction si_pods) (simp_all add: counts_as_healthy_total)

lemma cleanup_loop_filter:
  "cleanup_loop remove_iteration lock_held valid_app_list app_ids deleted =
     deleted @
     filter (\<lambda>app_id. app_id \<notin> set valid_app_list \<and> \<not> lock_held (remove_iteration app_id)) app_ids"
proof (induction app_ids arbitrary: deleted)
  case Nil
  show ?case by simp
next
  case (Cons app_id app_ids)
  have "any_true (map (\<lambda>deployed_id. app_id = deployed_id) valid_app_list) =
          (app_id \<in> set valid_app_list)"
    by (auto simp: any_true_iff)
  then show ?case by (simp add: Cons.IH Let_def)
qed

lemma check_flink_service_health_aggregates:
  assumes "healthy_flink_containers_cnt is_pod_ready now si_pods ''supervisor'' = Inr n1"
    and "healthy_flink_containers_cnt is_pod_ready now si_pods ''jobmanager'' = Inr n2"
    and "healthy_flink_containers_cnt is_pod_ready now si_pods ''taskmanager'' = Inr n3"
    and "check_under_replication instance_config 1 n1 ''supervisor'' = Inr r1"
    and "check_under_replication instance_config 1 n2 ''jobmanager'' = Inr r2"
    and "check_under_replication instance_config
           (taskmanagers_expected (taskmanager_instances instance_config)) n3 ''taskmanager'' =
         Inr r3"
    and "check_under_registered_taskmanagers instance_config
           (taskmanagers_expected (taskmanager_instances instance_config)) fetched = Inr r4"
  shows "check_flink_service_health check_under_replication is_pod_ready now fetched
           instance_config si_pods =
         Inr (if fst (aggregate [r1, r2, r3, r4]) then CRITICAL else OK,
              snd (aggregate [r1, r2, r3, r4]))"
  using assms by (simp add: check_flink_service_health_def Let_def split: prod.split)




lemma sample_counts:
  "healthy_flink_containers_cnt (\<lambda>pod. True) 100000000
     [old_taskmanager, young_taskmanager, old_jobmanager] ''supervisor'' = Inr 0"
  "healthy_flink_containers_cnt (\<lambda>pod. True) 100000000
     [old_taskmanager, young_taskmanager, old_jobmanager] ''jobmanager'' = Inr 1"
  "healthy_flink_containers_cnt (\<lambda>pod. True) 100000000
     [old_taskmanager, young_taskmanager, old_jobmanager] ''taskmanager'' = Inr 1"
  by (simp_all add: old_taskmanager_def young_taskmanager_def old_jobmanager_def
                healthy_flink_containers_cnt_def counts_as_healthy_def container_lifetime_def)

lemma sample_sub_checks:
  "sample_check_under_replication sample_config 1 0 ''supervisor'' = Inr (True, ''supervisor'')"
  "sample_check_under_replication sample_config 1 1 ''jobmanager'' = Inr (False, ''jobmanager'')"
  "sample_check_under_replication sample_config 10 1 ''taskmanager'' = Inr (True, ''taskmanager'')"
  by (simp_all add: sample_check_under_replication_def sample_config_def is_under_replicated_def
        percent_available_returns)

section \<open>The verdict of one check\<close>

text \<open>
  Claim C1. With a positive expected count, a non-negative observed count and a
  threshold between 0 and 100, the check reports under-replication exactly when
  \<open>observed * 100 < expected * threshold\<close>, compared on integers. With an expected
  count of zero and such an observed count and threshold it reports a healthy verdict,
  and with an expected count of zero it reports under-replication for no observed
  count and no threshold at all. The observed count is the number of taskmanagers that
  the dashboard reported.
\<close>

theorem under_replicated_iff_below_threshold:
  "(0 < expected_count \<and> 0 \<le> num_reported_of overview \<and>
    0 \<le> replication_crit_percentage instance_config \<and>
    replication_crit_percentage instance_config \<le> 100 \<longrightarrow>
      (\<exists>message. check_under_registered_taskmanagers instance_config expected_count
                    (Inr overview) =
         Inr (num_reported_of overview * 100 <
                expected_count * replication_crit_percentage instance_config, message))) \<and>
   (0 \<le> num_reported_of overview \<and>
    0 \<le> replication_crit_percentage instance_config \<and>
    replication_crit_percentage instance_config \<le> 100 \<longrightarrow>
      (\<exists>message. check_under_registered_taskmanagers instance_config 0 (Inr overview) =
         Inr (False, message))) \<and>
   check_under_registered_taskmanagers instance_config 0 (Inr overview) \<noteq> Inr (True, message)"
proof (intro conjI impI)
  let ?observed = "num_reported_of overview"
  let ?crit = "replication_crit_percentage instance_config"
  assume valid: "0 < expected_count \<and> 0 \<le> ?observed \<and> 0 \<le> ?crit \<and> ?crit \<le> 100"
  then obtain ratio where
    "is_under_replicated ?observed expected_count ?crit =
       Inr (?observed * 100 < expected_count * ?crit, ratio)"
    using is_under_replicated_positive by blast
  then show "\<exists>message. check_under_registered_taskmanagers instance_config expected_count
                         (Inr overview) =
               Inr (?observed * 100 < expected_count * ?crit, message)"
    using check_of_verdict by blast
next
  let ?observed = "num_reported_of overview"
  let ?crit = "replication_crit_percentage instance_config"
  assume valid: "0 \<le> ?observed \<and> 0 \<le> ?crit \<and> ?crit \<le> 100"
  then have "is_under_replicated ?observed 0 ?crit = Inr (False, 100)"
    using is_under_replicated_zero by simp
  then show "\<exists>message. check_under_registered_taskmanagers instance_config 0 (Inr overview) =
               Inr (False, message)"
    using check_of_verdict by blast
next
  let ?observed = "num_reported_of overview"
  let ?crit = "replication_crit_percentage instance_config"
  show "check_under_registered_taskmanagers instance_config 0 (Inr overview) \<noteq> Inr (True, message)"
  proof (cases "?observed < 0 \<or> ?crit < 0 \<or> 100 < ?crit")
    case True
    then have "is_under_replicated ?observed 0 ?crit = Inl InvalidArgument"
      by (intro is_under_replicated_invalid) auto
    then show ?thesis
      using check_of_invalid [of overview 0 instance_config] by simp
  next
    case False
    then have "is_under_replicated ?observed 0 ?crit = Inr (False, 100)"
      by (intro is_under_replicated_zero) auto
    then show ?thesis
      using check_of_verdict [of overview 0 instance_config False 100] by simp
  qed
qed

theorem under_replicated_iff_below_threshold_witness:
  "(\<exists>message. check_under_registered_taskmanagers sample_config 10
       (Inr [''taskmanagers'' \<mapsto> 8]) = Inr (True, message)) \<and>
   (\<exists>message. check_under_registered_taskmanagers sample_config 10
       (Inr [''taskmanagers'' \<mapsto> 10]) = Inr (False, message)) \<and>
   (\<exists>message. check_under_registered_taskmanagers sample_config 0
       (Inr [''taskmanagers'' \<mapsto> 0]) = Inr (False, message))"
  using
    under_replicated_iff_below_threshold
      [where expected_count = 10 and overview = "[''taskmanagers'' \<mapsto> 8]"
         and instance_config = sample_config]
    under_replicated_iff_below_threshold
      [where expected_count = 10 and overview = "[''taskmanagers'' \<mapsto> 10]"
         and instance_config = sample_config]
    under_replicated_iff_below_threshold
      [where expected_count = 10 and overview = "[''taskmanagers'' \<mapsto> 0]"
         and instance_config = sample_config]
  by (simp add: num_reported_of_def sample_config_def)

text \<open>
  Claim C3. When the counts are non-negative and the threshold lies between 0 and 100,
  the check raises nothing and returns a verdict, whose boolean is
  \<open>observed * 100 < expected * threshold\<close>; this includes an expected count of zero,
  where the division of the percentage would raise \<open>ZeroDivisionError\<close> and is not
  reached, and a threshold of 100. Whatever the inputs and whatever the dashboard call
  gave, the only exception that leaves the check is \<open>InvalidArgument\<close>. Combining raises
  nothing either: once the three counts and the four sub-checks have returned, the
  health check returns the status and the message of their combined verdict.
\<close>

theorem valid_input_yields_verdict:
  "(0 \<le> expected_count \<and> 0 \<le> num_reported_of overview \<and>
    0 \<le> replication_crit_percentage instance_config \<and>
    replication_crit_percentage instance_config \<le> 100 \<longrightarrow>
      (\<exists>message. check_under_registered_taskmanagers instance_config expected_count
                    (Inr overview) =
         Inr (num_reported_of overview * 100 <
                expected_count * replication_crit_percentage instance_config, message))) \<and>
   (check_under_registered_taskmanagers instance_config' expected_count' fetched = Inl e \<longrightarrow>
      e = InvalidArgument) \<and>
   (healthy_flink_containers_cnt is_pod_ready now si_pods ''supervisor'' = Inr n1 \<and>
    healthy_flink_containers_cnt is_pod_ready now si_pods ''jobmanager'' = Inr n2 \<and>
    healthy_flink_containers_cnt is_pod_ready now si_pods ''taskmanager'' = Inr n3 \<and>
    check_under_replication config 1 n1 ''supervisor'' = Inr r1 \<and>
    check_under_replication config 1 n2 ''jobmanager'' = Inr r2 \<and>
    check_under_replication config (taskmanagers_expected (taskmanager_instances config)) n3
      ''taskmanager'' = Inr r3 \<and>
    check_under_registered_taskmanagers config
      (taskmanagers_expected (taskmanager_instances config)) outcome = Inr r4 \<longrightarrow>
      check_flink_service_health check_under_replication is_pod_ready now outcome config si_pods =
        Inr (if fst (aggregate [r1, r2, r3, r4]) then CRITICAL else OK,
             snd (aggregate [r1, r2, r3, r4])))"
proof (intro conjI impI)
  let ?observed = "num_reported_of overview"
  let ?crit = "replication_crit_percentage instance_config"
  assume valid: "0 \<le> expected_count \<and> 0 \<le> ?observed \<and> 0 \<le> ?crit \<and> ?crit \<le> 100"
  show "\<exists>message. check_under_registered_taskmanagers instance_config expected_count
                    (Inr overview) =
         Inr (?observed * 100 < expected_count * ?crit, message)"
  proof (cases "expected_count = 0")
    case True
    from valid have "is_under_replicated ?observed 0 ?crit = Inr (False, 100)"
      by (intro is_under_replicated_zero) simp_all
    moreover from valid True have "\<not> ?observed * 100 < expected_count * ?crit" by simp
    ultimately show ?thesis
      using True check_of_verdict [of overview 0 instance_config False 100] by auto
  next
    case False
    with valid have "0 < expected_count" by simp
    with valid obtain ratio where
      "is_under_replicated ?observed expected_count ?crit =
         Inr (?observed * 100 < expected_count * ?crit, ratio)"
      using is_under_replicated_positive by blast
    then show ?thesis using check_of_verdict by blast
  qed
next
  assume raised:
    "check_under_registered_taskmanagers instance_config' expected_count' fetched = Inl e"
  show "e = InvalidArgument"
  proof (cases fetched)
    case (Inl reason)
    with raised show ?thesis by (simp add: check_under_registered_taskmanagers_def)
  next
    case (Inr overview')
    with raised show ?thesis
      by (auto simp: check_under_registered_taskmanagers_def Let_def
               split: sum.splits error.splits dest: is_under_replicated_error)
  qed
next
  assume "healthy_flink_containers_cnt is_pod_ready now si_pods ''supervisor'' = Inr n1 \<and>
    healthy_flink_containers_cnt is_pod_ready now si_pods ''jobmanager'' = Inr n2 \<and>
    healthy_flink_containers_cnt is_pod_ready now si_pods ''taskmanager'' = Inr n3 \<and>
    check_under_replication config 1 n1 ''supervisor'' = Inr r1 \<and>
    check_under_replication config 1 n2 ''jobmanager'' = Inr r2 \<and>
    check_under_replication config (taskmanagers_expected (taskmanager_instances config)) n3
      ''taskmanager'' = Inr r3 \<and>
    check_under_registered_taskmanagers config
      (taskmanagers_expected (taskmanager_instances config)) outcome = Inr r4"
  then show "check_flink_service_health check_under_replication is_pod_ready now outcome config si_pods =
        Inr (if fst (aggregate [r1, r2, r3, r4]) then CRITICAL else OK,
             snd (aggregate [r1, r2, r3, r4]))"
    by (elim conjE) (rule check_flink_service_health_aggregates)
qed

theorem valid_input_yields_verdict_witness:
  "(\<exists>message. check_under_registered_taskmanagers
       (sample_config\<lparr>replication_crit_percentage := 100\<rparr>) 0
       (Inr [''taskmanagers'' \<mapsto> 0]) = Inr (False, message)) \<and>
   check_under_registered_taskmanagers sample_config (- 1) (Inr [''taskmanagers'' \<mapsto> 0]) =
     Inl InvalidArgument \<and>
   (\<exists>output. check_flink_service_health sample_check_under_replication (\<lambda>pod. True) 100000000
      (Inr [''taskmanagers'' \<mapsto> 10]) sample_config
      [old_taskmanager, young_taskmanager, old_jobmanager] = Inr (CRITICAL, output))"
proof -
  have raised:
    "check_under_registered_taskmanagers sample_config (- 1) (Inr [''taskmanagers'' \<mapsto> 0]) =
       Inl InvalidArgument"
    by (simp add: check_under_registered_taskmanagers_def is_under_replicated_def
                  num_reported_of_def)
  have registered:
    "check_under_registered_taskmanagers sample_config 10 (Inr [''taskmanagers'' \<mapsto> 10]) =
       Inr (False, registered_message sample_config 10 10)"
    by (simp add: check_under_registered_taskmanagers_def is_under_replicated_def
                  percent_available_returns num_reported_of_def sample_config_def)
  have expected: "taskmanagers_expected (taskmanager_instances sample_config) = 10"
    by (simp add: sample_config_def)
  show ?thesis
    using raised registered expected sample_counts sample_sub_checks
      valid_input_yields_verdict
        [where expected_count = 0 and overview = "[''taskmanagers'' \<mapsto> 0]"
           and instance_config = "sample_config\<lparr>replication_crit_percentage := 100\<rparr>"
           and instance_config' = sample_config and expected_count' = "- 1"
           and fetched = "Inr [''taskmanagers'' \<mapsto> 0]" and e = InvalidArgument
           and is_pod_ready = "\<lambda>pod. True" and now = 100000000
           and si_pods = "[old_taskmanager, young_taskmanager, old_jobmanager]"
           and ?n1.0 = 0 and ?n2.0 = 1 and ?n3.0 = 1
           and check_under_replication = sample_check_under_replication
           and config = sample_config
           and ?r1.0 = "(True, ''supervisor'')" and ?r2.0 = "(False, ''jobmanager'')"
           and ?r3.0 = "(True, ''taskmanager'')"
           and ?r4.0 = "(False, registered_message sample_config 10 10)"
           and outcome = "Inr [''taskmanagers'' \<mapsto> 10]"]
    by (simp add: num_reported_of_def aggregate_def)
qed

text \<open>
  Claim C4. When the observed count or the expected count is negative, or the threshold
  lies outside 0 to 100, the check raises \<open>InvalidArgument\<close> and returns no verdict;
  so it does for an expected count of -1, an observed count of 0 and a threshold of 50.
\<close>

theorem invalid_input_raises_InvalidArgument:
  assumes "num_reported_of overview < 0 \<or> expected_count < 0 \<or>
           replication_crit_percentage instance_config < 0 \<or>
           100 < replication_crit_percentage instance_config"
  shows "check_under_registered_taskmanagers instance_config expected_count (Inr overview) =
           Inl InvalidArgument"
  using assms by (intro check_of_invalid is_under_replicated_invalid)

theorem invalid_input_raises_InvalidArgument_witness:
  "check_under_registered_taskmanagers (sample_config\<lparr>replication_crit_percentage := 50\<rparr>) (- 1)
     (Inr [''taskmanagers'' \<mapsto> 0]) = Inl InvalidArgument"
  using invalid_input_raises_InvalidArgument
    [of "[''taskmanagers'' \<mapsto> 0]" "- 1" "sample_config\<lparr>replication_crit_percentage := 50\<rparr>"]
  by simp

text \<open>
  Claim C5. When the dashboard call fails with \<open>ValueError\<close>, the check does not raise:
  it returns the pair of \<open>True\<close> (unhealthy) and a message that says that the dashboard
  of the service is not available, followed by the explanation of the alert.
\<close>

theorem dashboard_unavailable_is_unhealthy:
  "check_under_registered_taskmanagers instance_config expected_count (Inl reason) =
     Inr (True, ''Dashboard of service '' @ job_id instance_config @
                '' is not available!\<newline>('' @ reason @ '')'' @
                alert_explanation instance_config)"
  by (simp add: check_under_registered_taskmanagers_def unavailable_message_def)




text \<open>
  Claim C7. With a threshold of 100 and an observed count (not negative) below the
  expected count, the check reports under-replication.
\<close>

theorem full_threshold_shortfall_is_under_replicated:
  assumes "replication_crit_percentage instance_config = 100"
    and "0 \<le> num_reported_of overview"
    and "num_reported_of overview < expected_count"
  shows "\<exists>message. check_under_registered_taskmanagers instance_config expected_count
            (Inr overview) = Inr (True, message)"
proof -
  from assms have pos: "0 < expected_count" by simp
  then obtain ratio where
    "is_under_replicated (num_reported_of overview) expected_count 100 =
       Inr (num_reported_of overview * 100 < expected_count * 100, ratio)"
    using assms(2) is_under_replicated_positive [of expected_count "num_reported_of overview" 100]
    by auto
  moreover have "num_reported_of overview * 100 < expected_count * 100"
    using assms(3) by simp
  ultimately show ?thesis
    using assms(1) check_of_verdict [of overview expected_count instance_config True ratio]
    by auto
qed

theorem full_threshold_shortfall_is_under_replicated_witness:
  "\<exists>message. check_under_registered_taskmanagers
      (sample_config\<lparr>replication_crit_percentage := 100\<rparr>) 10
      (Inr [''taskmanagers'' \<mapsto> 9]) = Inr (True, message)"
  using full_threshold_shortfall_is_under_replicated
    [of "sample_config\<lparr>replication_crit_percentage := 100\<rparr>" "[''taskmanagers'' \<mapsto> 9]" 10]
  by (simp add: num_reported_of_def)

section \<open>The combined verdict\<close>

text \<open>
  Claim C2. For any list of verdicts, the combined verdict is unhealthy exactly when
  some input is (the disjunction of the inputs' booleans, so that splitting the list
  and combining the parts in any grouping gives the same boolean), and its message is
  the inputs' messages in their order with the delimiter between neighbours.
\<close>

theorem aggregate_is_disjunction_and_joined_messages:
  "fst (aggregate results) = foldr (\<or>) (map fst results) False \<and>
   fst (aggregate (xs @ ys)) = (fst (aggregate xs) \<or> fst (aggregate ys)) \<and>
   fst (aggregate [aggregate xs, aggregate ys]) = fst (aggregate (xs @ ys)) \<and>
   fst (aggregate [aggregate [a, b], c]) = fst (aggregate [a, aggregate [b, c]]) \<and>
   snd (aggregate []) = [] \<and>
   snd (aggregate (v # vs)) = snd v @ concat (map (\<lambda>w. delimiter @ snd w) vs)"
proof (intro conjI)
  show "fst (aggregate results) = foldr (\<or>) (map fst results) False"
    by (induction results) (simp_all add: aggregate_def)
  show "fst (aggregate (xs @ ys)) = (fst (aggregate xs) \<or> fst (aggregate ys))"
    by (simp add: aggregate_def any_true_append)
  then show "fst (aggregate [aggregate xs, aggregate ys]) = fst (aggregate (xs @ ys))"
    by (simp add: aggregate_def)
  show "fst (aggregate [aggregate [a, b], c]) = fst (aggregate [a, aggregate [b, c]])"
    by (simp add: aggregate_def)
  show "snd (aggregate []) = []"
    by (simp add: aggregate_def)
  show "snd (aggregate (v # vs)) = snd v @ concat (map (\<lambda>w. delimiter @ snd w) vs)"
    by (simp add: aggregate_def join_Cons comp_def)
qed

text \<open>
  Claim C8. Combining no verdicts at all gives a healthy verdict with an empty message.
\<close>

theorem aggregate_empty: "aggregate [] = (False, [])"
  by (simp add: aggregate_def)

section \<open>Which pods are counted\<close>

text \<open>
  Claim C9. When the count is returned, it is the number of pods that have the requested
  container type, are ready and have lived for more than sixty seconds; a pod is among
  the counted ones exactly when it meets all three conditions, so a ready pod younger
  than a minute is left out. The count is returned whenever every pod carries the
  container-type label and a start time.
\<close>

theorem healthy_count_is_three_condition_count:
  "(healthy_flink_containers_cnt is_pod_ready now si_pods container_type = Inr n \<longrightarrow>
      n = int (length (filter (meets_all_three is_pod_ready now container_type) si_pods))) \<and>
   (healthy_flink_containers is_pod_ready now si_pods container_type = Inr kept \<longrightarrow>
      (pod \<in> set kept) =
      (pod \<in> set si_pods \<and> meets_all_three is_pod_ready now container_type pod)) \<and>
   ((\<forall>p \<in> set si_pods. labels p ''flink-container-type'' \<noteq> None \<and> start_time p \<noteq> None) \<longrightarrow>
      healthy_flink_containers_cnt is_pod_ready now si_pods container_type =
        Inr (int (length (filter (meets_all_three is_pod_ready now container_type) si_pods))))"
proof (intro conjI impI)
  assume "healthy_flink_containers_cnt is_pod_ready now si_pods container_type = Inr n"
  then obtain ps where
    "healthy_flink_containers is_pod_ready now si_pods container_type = Inr ps"
    and "n = int (length ps)"
    by (auto simp: healthy_flink_containers_cnt_def split: sum.splits)
  then show "n = int (length (filter (meets_all_three is_pod_ready now container_type) si_pods))"
    using healthy_flink_containers_Inr by blast
next
  assume "healthy_flink_containers is_pod_ready now si_pods container_type = Inr kept"
  then have "kept = filter (meets_all_three is_pod_ready now container_type) si_pods"
    by (rule healthy_flink_containers_Inr)
  then show "(pod \<in> set kept) =
      (pod \<in> set si_pods \<and> meets_all_three is_pod_ready now container_type pod)"
    by simp
next
  assume "\<forall>p \<in> set si_pods. labels p ''flink-container-type'' \<noteq> None \<and> start_time p \<noteq> None"
  then show "healthy_flink_containers_cnt is_pod_ready now si_pods container_type =
        Inr (int (length (filter (meets_all_three is_pod_ready now container_type) si_pods)))"
    by (simp add: healthy_flink_containers_cnt_def healthy_flink_containers_total)
qed

theorem healthy_count_is_three_condition_count_witness:
  "healthy_flink_containers_cnt (\<lambda>pod. True) 100000000
     [old_taskmanager, young_taskmanager, old_jobmanager] ''taskmanager'' = Inr 1 \<and>
   healthy_flink_containers (\<lambda>pod. True) 100000000
     [old_taskmanager, young_taskmanager, old_jobmanager] ''taskmanager'' = Inr [old_taskmanager] \<and>
   \<not> meets_all_three (\<lambda>pod. True) 100000000 ''taskmanager'' young_taskmanager"
  using healthy_count_is_three_condition_count
    [of "\<lambda>pod. True" 100000000 "[old_taskmanager, young_taskmanager, old_jobmanager]"
        "''taskmanager''" 1 "[old_taskmanager]" young_taskmanager]
  by (simp add: meets_all_three_def old_taskmanager_def young_taskmanager_def old_jobmanager_def
                healthy_flink_containers_cnt_def counts_as_healthy_def container_lifetime_def)

section \<open>Which apps are deleted\<close>

text \<open>
  Claim C10. No delete call is issued for an app id that equals the composed job id of
  a configured service, nor for an app whose bounce lock raises \<open>IOError\<close> (that app is
  skipped and the loop goes on); every app deleted is one that the client listed.
\<close>

theorem cleanup_never_deletes_valid_or_locked:
  "((srv, inst, iteration) \<in> set services \<longrightarrow>
      compose_job_id srv inst iteration \<notin>
        set (cleanup_apps compose_job_id remove_iteration lock_held services listed)) \<and>
   (lock_held (remove_iteration app_id) \<longrightarrow>
      app_id \<notin> set (cleanup_apps compose_job_id remove_iteration lock_held services listed)) \<and>
   (app_id \<in> set (cleanup_apps compose_job_id remove_iteration lock_held services listed) \<longrightarrow>
      app_id \<in> set listed)"
proof -
  let ?valid = "map (\<lambda>(srv, inst, iteration). compose_job_id srv inst iteration) services"
  have deleted:
    "cleanup_apps compose_job_id remove_iteration lock_held services listed =
       filter (\<lambda>app_id. app_id \<notin> set ?valid \<and> \<not> lock_held (remove_iteration app_id)) listed"
    by (simp add: cleanup_apps_def cleanup_loop_filter)
  have "compose_job_id srv inst iteration \<in> set ?valid" if "(srv, inst, iteration) \<in> set services"
    using that by force
  then show ?thesis
    unfolding deleted by auto
qed

theorem cleanup_never_deletes_valid_or_locked_witness:
  "cleanup_apps dotted_job_id (take 8) (\<lambda>srv_instance. srv_instance = ''web.test'')
     [(''web'', ''main'', ''abc'')] [''web.main.abc'', ''web.test.old'', ''api.main.old''] =
     [''api.main.old'']"
  using cleanup_never_deletes_valid_or_locked
    [of "''web''" "''main''" "''abc''" "[(''web'', ''main'', ''abc'')]" dotted_job_id "take 8"
      "\<lambda>srv_instance. srv_instance = ''web.test''"
      "[''web.main.abc'', ''web.test.old'', ''api.main.old'']" "''web.test.old''"]
    cleanup_never_deletes_valid_or_locked
    [of "''web''" "''main''" "''abc''" "[(''web'', ''main'', ''abc'')]" dotted_job_id "take 8"
      "\<lambda>srv_instance. srv_instance = ''web.test''"
      "[''web.main.abc'', ''web.test.old'', ''api.main.old'']" "''api.main.old''"]
  by (simp add: cleanup_apps_def dotted_job_id_def)

end
